theory Spec2Isabelle
  imports Main
begin

section \<open>JavaScript values\<close>

text \<open>
  The normalizers of \<^verbatim>\<open>src/util/utils.ts\<close> and the facade of
  \<^verbatim>\<open>dist/src/record/record.js\<close> inspect their arguments with
  \<^verbatim>\<open>typeof\<close>, compare them with \<^verbatim>\<open>===\<close> / \<^verbatim>\<open>!==\<close>
  and read the properties \<^verbatim>\<open>path\<close> and \<^verbatim>\<open>callback\<close>. A value
  is therefore modelled by its runtime type, its identity where it is a reference
  (functions, objects, arrays, symbols) and, for a plain object, its own data properties
  in insertion order. Numbers are opaque to this code: an integer stands for a number
  other than NaN, and NaN is kept apart because \<^verbatim>\<open>NaN !== NaN\<close>.
  Accessor properties, proxies and expando properties on arrays and functions are
  outside the model.
\<close>

datatype jsval =
    Undefined
  | Null
  | Boolean bool
  | Number int
  | NaN
  | BigInt int
  | String string
  | Symbol nat
  | Function nat
  | Object nat "(string \<times> jsval) list"
  | Array nat "jsval list"

text \<open>The \<^verbatim>\<open>typeof\<close> operator.\<close>

fun typeof :: "jsval \<Rightarrow> string" where
  "typeof Undefined = ''undefined''"
| "typeof Null = ''object''"
| "typeof (Boolean b) = ''boolean''"
| "typeof (Number n) = ''number''"
| "typeof NaN = ''number''"
| "typeof (BigInt n) = ''bigint''"
| "typeof (String s) = ''string''"
| "typeof (Symbol r) = ''symbol''"
| "typeof (Function r) = ''function''"
| "typeof (Object r ps) = ''object''"
| "typeof (Array r xs) = ''object''"

text \<open>
  Strict equality \<^verbatim>\<open>===\<close>: references are compared by identity, NaN equals
  nothing, every other primitive is compared by value.
\<close>

definition strict_eq :: "jsval \<Rightarrow> jsval \<Rightarrow> bool" where
  "strict_eq a b =
     (case a of
        NaN \<Rightarrow> False
      | Object r ps \<Rightarrow> (case b of Object r' ps' \<Rightarrow> r = r' | _ \<Rightarrow> False)
      | Array r xs \<Rightarrow> (case b of Array r' xs' \<Rightarrow> r = r' | _ \<Rightarrow> False)
      | _ \<Rightarrow> a = b)"

text \<open>Conversion to boolean, as \<^verbatim>\<open>!x\<close> applies it.\<close>

fun truthy :: "jsval \<Rightarrow> bool" where
  "truthy Undefined = False"
| "truthy Null = False"
| "truthy (Boolean b) = b"
| "truthy (Number n) = (n \<noteq> 0)"
| "truthy NaN = False"
| "truthy (BigInt n) = (n \<noteq> 0)"
| "truthy (String s) = (s \<noteq> [])"
| "truthy v = True"

datatype error =
    Invalid_set_path_argument
  | Invalid_set_data_argument
  | Invalid_set_callback_argument
  | Invalid_set_arguments
  | TypeError

text \<open>
  A property read \<^verbatim>\<open>v.name\<close>. Reading a property of
  \<^verbatim>\<open>undefined\<close> or \<^verbatim>\<open>null\<close> throws a TypeError; an object
  yields its property or \<^verbatim>\<open>undefined\<close>; on every other value the names read
  by this code (\<^verbatim>\<open>path\<close>, \<^verbatim>\<open>callback\<close>) are absent.
\<close>

fun get_prop :: "jsval \<Rightarrow> string \<Rightarrow> error + jsval" where
  "get_prop Undefined name = Inl TypeError"
| "get_prop Null name = Inl TypeError"
| "get_prop (Object r ps) name =
     Inr (case map_of ps name of None \<Rightarrow> Undefined | Some v \<Rightarrow> v)"
| "get_prop v name = Inr Undefined"

text \<open>
  A property write \<^verbatim>\<open>result.name = v\<close> on the property list of an object: an
  existing property keeps its place, a new one is added last.
\<close>

fun set_prop :: "(string \<times> jsval) list \<Rightarrow> string \<Rightarrow> jsval \<Rightarrow> (string \<times> jsval) list" where
  "set_prop [] name v = [(name, v)]"
| "set_prop (p # ps) name v =
     (if fst p = name then (name, v) # ps else p # set_prop ps name v)"

section \<open>The argument normalizers (src/util/utils.ts)\<close>

record RecordSetArguments =
  path :: jsval
  data :: jsval
  callback :: jsval

definition isRootData :: "jsval \<Rightarrow> bool" where
  "isRootData d = (\<not> strict_eq d Undefined \<and> typeof d = ''object'')"

definition isNestedData :: "jsval \<Rightarrow> bool" where
  "isNestedData d = (typeof d \<noteq> ''function'')"

definition isPath :: "jsval \<Rightarrow> bool" where
  "isPath p = (\<not> strict_eq p Undefined \<and> typeof p = ''string'')"

definition isCallback :: "jsval \<Rightarrow> bool" where
  "isCallback c = (typeof c = ''function'')"

text \<open>
  \<^verbatim>\<open>result.path.length === 0\<close>. The path slot only ever holds
  \<^verbatim>\<open>undefined\<close>, \<^verbatim>\<open>false\<close> or a string when it is read; a boolean
  has no length, so the comparison is false for it.
\<close>

fun length_is_zero :: "jsval \<Rightarrow> bool" where
  "length_is_zero (String s) = (length s = 0)"
| "length_is_zero v = False"

text \<open>The block for \<^verbatim>\<open>args.length === startIndex + 2\<close>.\<close>

definition two_arguments :: "jsval \<Rightarrow> jsval \<Rightarrow> RecordSetArguments" where
  "two_arguments a0 a1 =
     (let result = \<lparr>path = Undefined, data = Undefined, callback = Undefined\<rparr>;
          result = (if \<not> isCallback a1 \<and> isNestedData a1
                    then result\<lparr>path := (if isPath a0 then a0 else Boolean False)\<rparr>
                    else result);
          result = (if isPath a0
                    then result\<lparr>data := (if isNestedData a1 then a1 else Undefined)\<rparr>
                    else result\<lparr>data := (if isRootData a0 then a0 else Undefined)\<rparr>);
          result = (if \<not> isPath a0
                    then result\<lparr>callback := (if isCallback a1 then a1 else Boolean False)\<rparr>
                    else result)
      in result)"

text \<open>The checks under \<^verbatim>\<open>if (result)\<close>, in the order of the source.\<close>

definition validate :: "RecordSetArguments \<Rightarrow> error + RecordSetArguments" where
  "validate result =
     (if (\<not> strict_eq (path result) Undefined \<and> length_is_zero (path result))
           \<or> strict_eq (path result) (Boolean False)
      then Inl Invalid_set_path_argument
      else if (strict_eq (data result) Undefined \<and> \<not> truthy (path result))
           \<or> strict_eq (data result) (Boolean False)
      then Inl Invalid_set_data_argument
      else if \<not> strict_eq (callback result) Undefined
           \<and> strict_eq (callback result) (Boolean False)
      then Inl Invalid_set_callback_argument
      else Inr result)"

text \<open>
  \<^verbatim>\<open>normalizeSetArguments(args, startIndex = 0)\<close>: three independent tests of
  the argument count, each of which overwrites \<^verbatim>\<open>result\<close>, then validation, or
  \<^verbatim>\<open>Invalid set arguments\<close> when no test fired. \<^verbatim>\<open>args ! i\<close> is only
  read below the length that the same test has just established.
\<close>

definition normalizeSetArguments :: "jsval list \<Rightarrow> nat \<Rightarrow> error + RecordSetArguments" where
  "normalizeSetArguments args startIndex =
     (let result = None;
          result = (if length args = startIndex + 1
                    then Some \<lparr>path = Undefined,
                               data = (if isRootData (args ! startIndex)
                                       then args ! startIndex else Undefined),
                               callback = Undefined\<rparr>
                    else result);
          result = (if length args = startIndex + 2
                    then Some (two_arguments (args ! startIndex) (args ! (startIndex + 1)))
                    else result);
          result = (if length args = startIndex + 3
                    then Some \<lparr>path = (if isPath (args ! startIndex)
                                       then args ! startIndex else Boolean False),
                               data = (if isNestedData (args ! (startIndex + 1))
                                       then args ! (startIndex + 1) else Boolean False),
                               callback = (if isCallback (args ! (startIndex + 2))
                                           then args ! (startIndex + 2) else Boolean False)\<rparr>
                    else result)
      in case result of
           Some r \<Rightarrow> validate r
         | None \<Rightarrow> Inl Invalid_set_arguments)"

text \<open>
  The loop of \<^verbatim>\<open>normalizeArguments\<close> over the arguments, on the property list
  of \<^verbatim>\<open>result\<close>: every string is written to \<^verbatim>\<open>path\<close>, every function
  to \<^verbatim>\<open>callback\<close>, every boolean to \<^verbatim>\<open>triggerNow\<close>; any other
  argument is skipped.
\<close>

fun scan :: "jsval list \<Rightarrow> (string \<times> jsval) list \<Rightarrow> (string \<times> jsval) list" where
  "scan [] result = result"
| "scan (a # as) result =
     scan as
       (if typeof a = ''string'' then set_prop result ''path'' a
        else if typeof a = ''function'' then set_prop result ''callback'' a
        else if typeof a = ''boolean'' then set_prop result ''triggerNow'' a
        else result)"

text \<open>
  \<^verbatim>\<open>normalizeArguments(args)\<close>. The first parameter is the identity of the
  object that \<^verbatim>\<open>Object.create(null)\<close> allocates in this call. Nothing in the
  function can throw, so it returns a value.
\<close>

definition normalizeArguments :: "nat \<Rightarrow> jsval list \<Rightarrow> jsval" where
  "normalizeArguments fresh args =
     (if length args = 1 \<and> typeof (args ! 0) = ''object''
      then args ! 0
      else Object fresh (scan args []))"

section \<open>The record facade (dist/src/record/record.js)\<close>

text \<open>
  The underlying record \<^verbatim>\<open>this.record\<close> is an external collaborator. What the
  facade does to it is the sequence of method calls it issues, so the model keeps that
  sequence. A call on the underlying record is assumed to return to the facade (its
  failures are reported through the error event, not thrown) and not to re-enter the
  facade before it returns; the value it returns is not modelled.
\<close>

datatype call =
    record_get jsval
  | record_set RecordSetArguments
  | record_setWithAck RecordSetArguments
  | record_subscribe jsval
  | record_unsubscribe jsval
  | record_discard
  | record_delete jsval
  | record_setMergeStrategy jsval

text \<open>
  The state of a facade: \<^verbatim>\<open>this.subscriptions\<close> and the calls issued on
  \<^verbatim>\<open>this.record\<close> so far, oldest first. The constructor sets
  \<^verbatim>\<open>this.subscriptions\<close> to the empty array; the event listeners it registers
  take no part in the methods below and are left out.
\<close>

record facade =
  subscriptions :: "jsval list"
  issued :: "call list"

text \<open>
  Every method returns \<open>Inl\<close> of the error it throws or \<open>Inr\<close> of the state it
  leaves. No method changes \<^verbatim>\<open>this.subscriptions\<close> or calls the underlying
  record before the last point at which it can throw, so a throw leaves the state as
  it was.
\<close>

definition get :: "facade \<Rightarrow> jsval \<Rightarrow> error + facade" where
  "get this p = Inr (this\<lparr>issued := issued this @ [record_get p]\<rparr>)"

definition set_js :: "facade \<Rightarrow> jsval list \<Rightarrow> error + facade" where
  "set_js this arguments =
     (case normalizeSetArguments arguments 0 of
        Inl e \<Rightarrow> Inl e
      | Inr r \<Rightarrow> Inr (this\<lparr>issued := issued this @ [record_set r]\<rparr>))"

definition setWithAck :: "facade \<Rightarrow> jsval list \<Rightarrow> error + facade" where
  "setWithAck this arguments =
     (case normalizeSetArguments arguments 0 of
        Inl e \<Rightarrow> Inl e
      | Inr r \<Rightarrow> Inr (this\<lparr>issued := issued this @ [record_setWithAck r]\<rparr>))"

definition subscribe :: "nat \<Rightarrow> facade \<Rightarrow> jsval list \<Rightarrow> error + facade" where
  "subscribe fresh this arguments =
     (let parameters = normalizeArguments fresh arguments
      in Inr (this\<lparr>subscriptions := subscriptions this @ [parameters],
                    issued := issued this @ [record_subscribe parameters]\<rparr>))"

text \<open>
  The arrow function given to \<^verbatim>\<open>filter\<close> in \<^verbatim>\<open>unsubscribe\<close>:
  \<^verbatim>\<open>subscription.path !== parameters.path || subscription.callback !== parameters.callback\<close>,
  its operands read from left to right, the right-hand comparison only when the
  left-hand one is false.
\<close>

definition differs :: "jsval \<Rightarrow> jsval \<Rightarrow> error + bool" where
  "differs parameters subscription =
     (case get_prop subscription ''path'' of
        Inl e \<Rightarrow> Inl e
      | Inr sp \<Rightarrow>
         (case get_prop parameters ''path'' of
            Inl e \<Rightarrow> Inl e
          | Inr pp \<Rightarrow>
             if \<not> strict_eq sp pp then Inr True
             else
               (case get_prop subscription ''callback'' of
                  Inl e \<Rightarrow> Inl e
                | Inr sc \<Rightarrow>
                   (case get_prop parameters ''callback'' of
                      Inl e \<Rightarrow> Inl e
                    | Inr pc \<Rightarrow> Inr (\<not> strict_eq sc pc)))))"

text \<open>
  \<^verbatim>\<open>Array.prototype.filter\<close> with a predicate that may throw: the elements are
  visited in order and the first throw ends the call.
\<close>

fun filter_js :: "('a \<Rightarrow> error + bool) \<Rightarrow> 'a list \<Rightarrow> error + 'a list" where
  "filter_js f [] = Inr []"
| "filter_js f (x # xs) =
     (case f x of
        Inl e \<Rightarrow> Inl e
      | Inr keep \<Rightarrow>
         (case filter_js f xs of
            Inl e \<Rightarrow> Inl e
          | Inr kept \<Rightarrow> Inr (if keep then x # kept else kept)))"

definition unsubscribe :: "nat \<Rightarrow> facade \<Rightarrow> jsval list \<Rightarrow> error + facade" where
  "unsubscribe fresh this arguments =
     (let parameters = normalizeArguments fresh arguments
      in case filter_js (differs parameters) (subscriptions this) of
           Inl e \<Rightarrow> Inl e
         | Inr kept \<Rightarrow>
            Inr (this\<lparr>subscriptions := kept,
                      issued := issued this @ [record_unsubscribe parameters]\<rparr>))"

text \<open>
  The loop of \<^verbatim>\<open>discard\<close>: one \<^verbatim>\<open>this.record.unsubscribe\<close> for each
  element of \<^verbatim>\<open>this.subscriptions\<close>, by increasing index.
\<close>

fun unsubscribe_each :: "jsval list \<Rightarrow> call list \<Rightarrow> call list" where
  "unsubscribe_each [] calls = calls"
| "unsubscribe_each (subscription # rest) calls =
     unsubscribe_each rest (calls @ [record_unsubscribe subscription])"

definition discard :: "facade \<Rightarrow> error + facade" where
  "discard this =
     Inr (this\<lparr>issued := unsubscribe_each (subscriptions this) (issued this) @ [record_discard]\<rparr>)"

definition delete :: "facade \<Rightarrow> jsval \<Rightarrow> error + facade" where
  "delete this cb = Inr (this\<lparr>issued := issued this @ [record_delete cb]\<rparr>)"

definition setMergeStrategy :: "facade \<Rightarrow> jsval \<Rightarrow> error + facade" where
  "setMergeStrategy this mergeStrategy =
     Inr (this\<lparr>issued := issued this @ [record_setMergeStrategy mergeStrategy]\<rparr>)"

section \<open>Notions used to state the properties\<close>

text \<open>The values whose property reads throw.\<close>

definition nullish :: "jsval \<Rightarrow> bool" where
  "nullish v = (v = Undefined \<or> v = Null)"

text \<open>
  Two requests have the same (path, callback) pair when both properties can be read on
  both and are strictly equal, property by property.
\<close>

definition pair_equal :: "jsval \<Rightarrow> jsval \<Rightarrow> bool" where
  "pair_equal a b =
     (case (get_prop a ''path'', get_prop b ''path'') of
        (Inr pa, Inr pb) \<Rightarrow>
          (case (get_prop a ''callback'', get_prop b ''callback'') of
             (Inr ca, Inr cb) \<Rightarrow> strict_eq pa pb \<and> strict_eq ca cb
           | _ \<Rightarrow> False)
      | _ \<Rightarrow> False)"

text \<open>
  The last argument of a given runtime type, or \<^verbatim>\<open>undefined\<close> when there is
  none.
\<close>

definition last_of_type :: "string \<Rightarrow> jsval list \<Rightarrow> jsval" where
  "last_of_type t args =
     (case filter (\<lambda>a. typeof a = t) args of [] \<Rightarrow> Undefined | x # xs \<Rightarrow> last (x # xs))"

text \<open>
  The callback of a request is callable when the property can be read and holds a
  function.
\<close>

definition callable_callback :: "jsval \<Rightarrow> bool" where
  "callable_callback request =
     (case get_prop request ''callback'' of
        Inl e \<Rightarrow> False
      | Inr c \<Rightarrow> typeof c = ''function'')"

section \<open>Auxiliary facts\<close>

lemma unsubscribe_each_append:
  "unsubscribe_each xs calls = calls @ map record_unsubscribe xs"
  by (induction xs arbitrary: calls) simp_all

lemma typeof_normalizeArguments:
  "typeof (normalizeArguments fresh args) = ''object''"
  by (simp add: normalizeArguments_def)

lemma get_prop_nullish: "nullish v \<Longrightarrow> get_prop v name = Inl TypeError"
  by (auto simp: nullish_def)

lemma get_prop_Inr: "\<not> nullish v \<Longrightarrow> \<exists>x. get_prop v name = Inr x"
  by (cases v) (auto simp: nullish_def)

lemma differs_nullish:
  assumes "nullish subscription \<or> nullish parameters"
  shows "differs parameters subscription = Inl TypeError"
proof (cases "nullish subscription")
  case True
  then show ?thesis by (simp add: differs_def get_prop_nullish)
next
  case False
  with assms have p: "nullish parameters" by simp
  from False obtain sp where "get_prop subscription ''path'' = Inr sp"
    using get_prop_Inr by blast
  with p show ?thesis by (simp add: differs_def get_prop_nullish)
qed

lemma differs_Inr:
  assumes "\<not> nullish subscription" "\<not> nullish parameters"
  shows "differs parameters subscription = Inr (\<not> pair_equal subscription parameters)"
proof -
  obtain sp pp sc pc where
    "get_prop subscription ''path'' = Inr sp" "get_prop parameters ''path'' = Inr pp"
    "get_prop subscription ''callback'' = Inr sc" "get_prop parameters ''callback'' = Inr pc"
    using assms get_prop_Inr by meson
  then show ?thesis by (simp add: differs_def pair_equal_def)
qed

lemma differs_Inl:
  "differs parameters subscription = Inl e \<longleftrightarrow>
     e = TypeError \<and> (nullish subscription \<or> nullish parameters)"
proof (cases "nullish subscription \<or> nullish parameters")
  case True
  then show ?thesis using differs_nullish [OF True] by auto
next
  case False
  then show ?thesis using differs_Inr [of subscription parameters] by simp
qed

lemma filter_js_Inl:
  "filter_js f xs = Inl e \<Longrightarrow> \<exists>x \<in> set xs. f x = Inl e"
  by (induction xs arbitrary: e) (auto split: sum.splits)

lemma filter_js_throws:
  "x \<in> set xs \<Longrightarrow> f x = Inl e \<Longrightarrow> \<exists>e'. filter_js f xs = Inl e'"
  by (induction xs) (auto split: sum.splits)

lemma filter_js_Inr:
  "\<forall>x \<in> set xs. f x = Inr (g x) \<Longrightarrow> filter_js f xs = Inr (filter g xs)"
  by (induction xs) simp_all

lemma normalizeArguments_not_Undefined: "normalizeArguments fresh args \<noteq> Undefined"
  using typeof_normalizeArguments [of fresh args] by auto

lemma filter_differs_Inl:
  "filter_js (differs parameters) xs = Inl e \<longleftrightarrow>
     e = TypeError \<and> xs \<noteq> [] \<and> (nullish parameters \<or> (\<exists>x \<in> set xs. nullish x))"
proof
  assume "filter_js (differs parameters) xs = Inl e"
  then obtain x where x: "x \<in> set xs" "differs parameters x = Inl e"
    using filter_js_Inl [of "differs parameters" xs e] by blast
  from x(2) have "e = TypeError" "nullish x \<or> nullish parameters"
    by (simp_all add: differs_Inl)
  moreover from x(1) have "xs \<noteq> []" by auto
  ultimately show "e = TypeError \<and> xs \<noteq> [] \<and> (nullish parameters \<or> (\<exists>x \<in> set xs. nullish x))"
    using x(1) by blast
next
  assume r: "e = TypeError \<and> xs \<noteq> [] \<and> (nullish parameters \<or> (\<exists>x \<in> set xs. nullish x))"
  then obtain x where x: "x \<in> set xs" "nullish x \<or> nullish parameters"
    by (cases xs) auto
  from x(2) have "differs parameters x = Inl TypeError"
    by (rule differs_nullish)
  with x(1) obtain e' where e': "filter_js (differs parameters) xs = Inl e'"
    using filter_js_throws [of x xs "differs parameters" TypeError] by blast
  then obtain y where "differs parameters y = Inl e'"
    using filter_js_Inl [of "differs parameters" xs e'] by blast
  then have "e' = TypeError"
    by (simp add: differs_Inl)
  with e' r show "filter_js (differs parameters) xs = Inl e" by blast
qed

lemma filter_differs_Inr:
  assumes "\<not> nullish parameters" "\<forall>x \<in> set xs. \<not> nullish x"
  shows "filter_js (differs parameters) xs =
           Inr (filter (\<lambda>s. \<not> pair_equal s parameters) xs)"
proof (rule filter_js_Inr)
  show "\<forall>x \<in> set xs. differs parameters x = Inr (\<not> pair_equal x parameters)"
    using assms by (simp add: differs_Inr)
qed

lemma map_of_set_prop: "map_of (set_prop ps k v) = (map_of ps)(k \<mapsto> v)"
  by (induction ps) (auto simp: fun_eq_iff)

lemma filter_last_step:
  "(case filter P (a # as) of [] \<Rightarrow> d | x # xs \<Rightarrow> Some (last (x # xs))) =
     (case filter P as of
        [] \<Rightarrow> (if P a then Some a else d)
      | x # xs \<Rightarrow> Some (last (x # xs)))"
  by (cases "filter P as") auto

lemma map_of_scan_path:
  "map_of (scan args result) ''path'' =
     (case filter (\<lambda>a. typeof a = ''string'') args of
        [] \<Rightarrow> map_of result ''path''
      | x # xs \<Rightarrow> Some (last (x # xs)))"
proof (induction args arbitrary: result)
  case Nil
  then show ?case by simp
next
  case (Cons a as)
  show ?case
    unfolding filter_last_step scan.simps Cons.IH
    by (simp add: map_of_set_prop split: list.splits)
qed

lemma map_of_scan_callback:
  "map_of (scan args result) ''callback'' =
     (case filter (\<lambda>a. typeof a = ''function'') args of
        [] \<Rightarrow> map_of result ''callback''
      | x # xs \<Rightarrow> Some (last (x # xs)))"
proof (induction args arbitrary: result)
  case Nil
  then show ?case by simp
next
  case (Cons a as)
  show ?case
    unfolding filter_last_step scan.simps Cons.IH
    by (simp add: map_of_set_prop split: list.splits)
qed

lemma map_of_scan_triggerNow:
  "map_of (scan args result) ''triggerNow'' =
     (case filter (\<lambda>a. typeof a = ''boolean'') args of
        [] \<Rightarrow> map_of result ''triggerNow''
      | x # xs \<Rightarrow> Some (last (x # xs)))"
proof (induction args arbitrary: result)
  case Nil
  then show ?case by simp
next
  case (Cons a as)
  show ?case
    unfolding filter_last_step scan.simps Cons.IH
    by (simp add: map_of_set_prop split: list.splits)
qed

lemma get_prop_fresh:
  "get_prop (normalizeArguments r1 args) name = get_prop (normalizeArguments r2 args) name"
  by (simp add: normalizeArguments_def)

lemma pair_equal_fresh:
  "pair_equal (normalizeArguments r1 args) q = pair_equal (normalizeArguments r2 args) q"
  unfolding pair_equal_def get_prop_fresh [of r1 args _ r2] ..

lemma unsubscribe_Inl:
  "unsubscribe fresh this args = Inl e \<longleftrightarrow>
     e = TypeError \<and> subscriptions this \<noteq> []
     \<and> (nullish (normalizeArguments fresh args) \<or> (\<exists>s \<in> set (subscriptions this). nullish s))"
proof -
  have "unsubscribe fresh this args = Inl e \<longleftrightarrow>
          filter_js (differs (normalizeArguments fresh args)) (subscriptions this) = Inl e"
    by (simp add: unsubscribe_def Let_def split: sum.splits)
  then show ?thesis
    by (simp only: filter_differs_Inl)
qed

lemma unsubscribe_Inr:
  assumes "\<not> nullish (normalizeArguments fresh args)"
    and "\<forall>s \<in> set (subscriptions this). \<not> nullish s"
  shows "unsubscribe fresh this args =
           Inr (this\<lparr>subscriptions :=
                       filter (\<lambda>s. \<not> pair_equal s (normalizeArguments fresh args))
                         (subscriptions this),
                     issued := issued this @ [record_unsubscribe (normalizeArguments fresh args)]\<rparr>)"
  using filter_differs_Inr [OF assms]
  by (simp add: unsubscribe_def Let_def)

lemma nullish_normalizeArguments:
  "nullish (normalizeArguments fresh args) \<longleftrightarrow> normalizeArguments fresh args = Null"
  by (simp add: nullish_def normalizeArguments_not_Undefined)

lemma nullish_fresh:
  "nullish (normalizeArguments r1 args) = nullish (normalizeArguments r2 args)"
  by (simp add: normalizeArguments_def nullish_def)

lemma pair_equal_not_nullish: "pair_equal a b \<Longrightarrow> \<not> nullish a"
  by (auto simp: pair_equal_def get_prop_nullish)

lemma strict_eq_Undefined: "strict_eq v Undefined \<longleftrightarrow> v = Undefined"
  by (cases v) (simp_all add: strict_eq_def)

lemma strict_eq_False: "strict_eq v (Boolean False) \<longleftrightarrow> v = Boolean False"
  by (cases v) (simp_all add: strict_eq_def)

lemma typeof_string: "typeof v = ''string'' \<longleftrightarrow> (\<exists>s. v = String s)"
  by (cases v) simp_all

lemma one_argument:
  "validate \<lparr>path = Undefined, data = (if isRootData a0 then a0 else Undefined),
             callback = Undefined\<rparr>
   = (if typeof a0 = ''object''
      then Inr \<lparr>path = Undefined, data = a0, callback = Undefined\<rparr>
      else Inl Invalid_set_data_argument)"
  by (cases a0) (simp_all add: validate_def isRootData_def strict_eq_def)

lemma two_arguments_function:
  assumes "typeof a1 = ''function''"
  shows "validate (two_arguments a0 a1)
   = (if typeof a0 = ''object''
      then Inr \<lparr>path = Undefined, data = a0, callback = a1\<rparr>
      else Inl Invalid_set_data_argument)"
  using assms
  by (cases a0; cases a1)
     (simp_all add: validate_def two_arguments_def isRootData_def isPath_def isCallback_def
       isNestedData_def strict_eq_def)

lemma two_arguments_data:
  assumes "typeof a1 \<noteq> ''function''"
  shows "validate (two_arguments a0 a1)
   = (if typeof a0 \<noteq> ''string'' \<or> a0 = String '''' then Inl Invalid_set_path_argument
      else if a1 = Boolean False then Inl Invalid_set_data_argument
      else Inr \<lparr>path = a0, data = a1, callback = Undefined\<rparr>)"
proof (cases "typeof a0 = ''string''")
  case True
  then obtain s where s: "a0 = String s"
    by (auto simp: typeof_string)
  with assms show ?thesis
    by (simp add: validate_def two_arguments_def isPath_def isCallback_def isNestedData_def
        strict_eq_Undefined strict_eq_False)
next
  case False
  with assms show ?thesis
    by (simp add: validate_def two_arguments_def isPath_def isCallback_def isNestedData_def
        strict_eq_Undefined strict_eq_False)
qed

lemma three_arguments:
  "validate \<lparr>path = (if isPath a0 then a0 else Boolean False),
             data = (if isNestedData a1 then a1 else Boolean False),
             callback = (if isCallback a2 then a2 else Boolean False)\<rparr>
   = (if typeof a0 \<noteq> ''string'' \<or> a0 = String '''' then Inl Invalid_set_path_argument
      else if typeof a1 = ''function'' \<or> a1 = Boolean False
      then Inl Invalid_set_data_argument
      else if typeof a2 \<noteq> ''function'' then Inl Invalid_set_callback_argument
      else Inr \<lparr>path = a0, data = a1, callback = a2\<rparr>)"
proof (cases "typeof a0 = ''string''")
  case True
  then obtain s where s: "a0 = String s"
    by (auto simp: typeof_string)
  show ?thesis
  proof (cases "typeof a2 = ''function''")
    case True
    then have "a2 \<noteq> Undefined" "a2 \<noteq> Boolean False" by auto
    with True s show ?thesis
      by (simp add: validate_def isPath_def isCallback_def isNestedData_def
          strict_eq_Undefined strict_eq_False)
  next
    case False
    with s show ?thesis
      by (simp add: validate_def isPath_def isCallback_def isNestedData_def
          strict_eq_Undefined strict_eq_False)
  qed
next
  case False
  then show ?thesis
    by (simp add: validate_def isPath_def isCallback_def isNestedData_def
        strict_eq_Undefined strict_eq_False)
qed

section \<open>The set normalizer\<close>

text \<open>
  C6. The documented table of the set normalizer, for every argument list and every
  start index. One argument: an object-like value is the data, anything else is an
  invalid data argument. Two arguments: with a function second, an object-like first
  argument is the data and the function the callback, and any other first argument is an
  invalid data argument; with any other second argument, the first must be a non-empty
  string, the path, and the second is the data. Three arguments: a non-empty string path,
  a data value that is no function and a function callback, each checked in this order.
  Any other number of arguments is invalid. The three documented examples are instances.
  In one case the code departs from the table: the data value \<^verbatim>\<open>false\<close>,
  which is no function, is refused as an invalid data argument, since it coincides with
  the marker that the three-argument block stores for a refused data value.
\<close>

theorem normalizeSetArguments_table:
  "normalizeSetArguments args startIndex =
     (let a0 = args ! startIndex; a1 = args ! (startIndex + 1); a2 = args ! (startIndex + 2)
      in if length args = startIndex + 1
         then if typeof a0 = ''object''
              then Inr \<lparr>path = Undefined, data = a0, callback = Undefined\<rparr>
              else Inl Invalid_set_data_argument
         else if length args = startIndex + 2
         then if typeof a1 = ''function''
              then if typeof a0 = ''object''
                   then Inr \<lparr>path = Undefined, data = a0, callback = a1\<rparr>
                   else Inl Invalid_set_data_argument
              else if typeof a0 \<noteq> ''string'' \<or> a0 = String ''''
              then Inl Invalid_set_path_argument
              else if a1 = Boolean False then Inl Invalid_set_data_argument
              else Inr \<lparr>path = a0, data = a1, callback = Undefined\<rparr>
         else if length args = startIndex + 3
         then if typeof a0 \<noteq> ''string'' \<or> a0 = String ''''
              then Inl Invalid_set_path_argument
              else if typeof a1 = ''function'' \<or> a1 = Boolean False
              then Inl Invalid_set_data_argument
              else if typeof a2 \<noteq> ''function'' then Inl Invalid_set_callback_argument
              else Inr \<lparr>path = a0, data = a1, callback = a2\<rparr>
         else Inl Invalid_set_arguments)"
proof -
  let ?a0 = "args ! startIndex" and ?a1 = "args ! (startIndex + 1)"
    and ?a2 = "args ! (startIndex + 2)"
  consider (one) "length args = startIndex + 1" | (two) "length args = startIndex + 2"
    | (three) "length args = startIndex + 3"
    | (other) "length args \<noteq> startIndex + 1" "length args \<noteq> startIndex + 2"
        "length args \<noteq> startIndex + 3"
    by blast
  then show ?thesis
  proof cases
    case one
    then have "normalizeSetArguments args startIndex =
        validate \<lparr>path = Undefined, data = (if isRootData ?a0 then ?a0 else Undefined),
                  callback = Undefined\<rparr>"
      by (simp add: normalizeSetArguments_def)
    with one show ?thesis
      unfolding one_argument Let_def by simp
  next
    case two
    then have n: "normalizeSetArguments args startIndex = validate (two_arguments ?a0 ?a1)"
      by (simp add: normalizeSetArguments_def)
    show ?thesis
    proof (cases "typeof ?a1 = ''function''")
      case True
      with two show ?thesis
        unfolding n two_arguments_function [OF True] Let_def by simp
    next
      case False
      with two show ?thesis
        unfolding n two_arguments_data [OF False] Let_def by simp
    qed
  next
    case three
    then have "normalizeSetArguments args startIndex =
        validate \<lparr>path = (if isPath ?a0 then ?a0 else Boolean False),
                  data = (if isNestedData ?a1 then ?a1 else Boolean False),
                  callback = (if isCallback ?a2 then ?a2 else Boolean False)\<rparr>"
      by (simp add: normalizeSetArguments_def)
    with three show ?thesis
      unfolding three_arguments Let_def by simp
  next
    case other
    then show ?thesis
      by (simp add: normalizeSetArguments_def)
  qed
qed

text \<open>
  C6 at the three documented examples, at a single object and at the data value
  \<^verbatim>\<open>true\<close>, where the table holds; and at \<^verbatim>\<open>("p", false)\<close> and
  \<^verbatim>\<open>("p", false, fn)\<close>, where the code throws although its own test for
  nested data accepts \<^verbatim>\<open>false\<close>.
\<close>

theorem normalizeSetArguments_table_witness:
  "normalizeSetArguments [String ''a/b'', Object 0 [(''x'', Number 1)]] 0 =
     Inr \<lparr>path = String ''a/b'', data = Object 0 [(''x'', Number 1)], callback = Undefined\<rparr>
   \<and> normalizeSetArguments [Object 0 [(''x'', Number 1)], Function 1] 0 =
     Inr \<lparr>path = Undefined, data = Object 0 [(''x'', Number 1)], callback = Function 1\<rparr>
   \<and> normalizeSetArguments [String ''p'', Object 0 [(''x'', Number 1)], Function 1] 0 =
     Inr \<lparr>path = String ''p'', data = Object 0 [(''x'', Number 1)], callback = Function 1\<rparr>
   \<and> normalizeSetArguments [Object 0 [(''x'', Number 1)]] 0 =
     Inr \<lparr>path = Undefined, data = Object 0 [(''x'', Number 1)], callback = Undefined\<rparr>
   \<and> normalizeSetArguments [String ''p'', Boolean True] 0 =
     Inr \<lparr>path = String ''p'', data = Boolean True, callback = Undefined\<rparr>
   \<and> normalizeSetArguments [String ''p'', Boolean False] 0 = Inl Invalid_set_data_argument
   \<and> normalizeSetArguments [String ''p'', Boolean False, Function 1] 0
       = Inl Invalid_set_data_argument
   \<and> isNestedData (Boolean False)"
  using normalizeSetArguments_table [of "[String ''a/b'', Object 0 [(''x'', Number 1)]]" 0]
    normalizeSetArguments_table [of "[Object 0 [(''x'', Number 1)], Function 1]" 0]
    normalizeSetArguments_table [of "[String ''p'', Object 0 [(''x'', Number 1)], Function 1]" 0]
    normalizeSetArguments_table [of "[Object 0 [(''x'', Number 1)]]" 0]
    normalizeSetArguments_table [of "[String ''p'', Boolean True]" 0]
    normalizeSetArguments_table [of "[String ''p'', Boolean False]" 0]
    normalizeSetArguments_table [of "[String ''p'', Boolean False, Function 1]" 0]
  by (simp add: isNestedData_def)

text \<open>
  C7. With one, two or three arguments after \<^verbatim>\<open>startIndex\<close>, an empty string
  in the first position, the only one that can become the path, makes the set
  normalizer throw. The error names the path when the empty string was taken as the
  path (two arguments with a second one that is no function, or three arguments), and
  the data otherwise (one argument, or two with a function second), where the path
  slot stays unset and nothing is left to write.
\<close>

theorem empty_path_rejected:
  assumes "args ! startIndex = String ''''"
    and "length args = startIndex + 1 \<or> length args = startIndex + 2
         \<or> length args = startIndex + 3"
  shows "normalizeSetArguments args startIndex =
           Inl (if length args = startIndex + 1
                   \<or> (length args = startIndex + 2
                       \<and> typeof (args ! (startIndex + 1)) = ''function'')
                then Invalid_set_data_argument
                else Invalid_set_path_argument)"
  using assms
  by (auto simp: normalizeSetArguments_def two_arguments_def validate_def isPath_def
      isRootData_def isNestedData_def isCallback_def strict_eq_def)

text \<open>C7 at one, two and three arguments, and at a start index of 1.\<close>

theorem empty_path_rejected_witness:
  "normalizeSetArguments [String ''''] 0 = Inl Invalid_set_data_argument
   \<and> normalizeSetArguments [String '''', Function 1] 0 = Inl Invalid_set_data_argument
   \<and> normalizeSetArguments [String '''', Number 1] 0 = Inl Invalid_set_path_argument
   \<and> normalizeSetArguments [String '''', Number 1, Function 1] 0 = Inl Invalid_set_path_argument
   \<and> normalizeSetArguments [Null, String '''', Number 1, Function 1] 1
       = Inl Invalid_set_path_argument"
  using empty_path_rejected [of "[String '''']" 0]
    empty_path_rejected [of "[String '''', Function 1]" 0]
    empty_path_rejected [of "[String '''', Number 1]" 0]
    empty_path_rejected [of "[String '''', Number 1, Function 1]" 0]
    empty_path_rejected [of "[Null, String '''', Number 1, Function 1]" 1]
  by simp

section \<open>The subscribe normalizer\<close>

text \<open>
  C8. A single argument of runtime type object is returned itself, unchanged, so
  normalizing the output of the normalizer again yields the same object.
\<close>

theorem normalizeArguments_passthrough:
  "(typeof request = ''object'' \<longrightarrow> normalizeArguments fresh [request] = request)
   \<and> normalizeArguments fresh' [normalizeArguments fresh args] = normalizeArguments fresh args"
  by (simp add: normalizeArguments_def)

text \<open>C8 at a request object with a path and a callback.\<close>

theorem normalizeArguments_passthrough_witness:
  "typeof (Object 5 [(''path'', String ''p''), (''callback'', Function 1)]) = ''object''
   \<and> normalizeArguments 8 [Object 5 [(''path'', String ''p''), (''callback'', Function 1)]]
       = Object 5 [(''path'', String ''p''), (''callback'', Function 1)]
   \<and> normalizeArguments 9 [normalizeArguments 8
         [Object 5 [(''path'', String ''p''), (''callback'', Function 1)]]]
       = Object 5 [(''path'', String ''p''), (''callback'', Function 1)]"
  using normalizeArguments_passthrough
    [of "Object 5 [(''path'', String ''p''), (''callback'', Function 1)]" 8 9
        "[Object 5 [(''path'', String ''p''), (''callback'', Function 1)]]"]
  by (simp add: normalizeArguments_def)

text \<open>
  C5, as the code has it. With two or more arguments the loop writes every argument to
  the slot of its runtime type, so the last string is the path, the last function the
  callback and the last boolean \<^verbatim>\<open>triggerNow\<close>; an earlier argument of the same
  type is overwritten, and a slot with no argument of its type reads
  \<^verbatim>\<open>undefined\<close>.
\<close>

theorem last_argument_of_a_type_wins:
  assumes "2 \<le> length args"
  shows "get_prop (normalizeArguments fresh args) ''path'' = Inr (last_of_type ''string'' args)
    \<and> get_prop (normalizeArguments fresh args) ''callback''
        = Inr (last_of_type ''function'' args)
    \<and> get_prop (normalizeArguments fresh args) ''triggerNow''
        = Inr (last_of_type ''boolean'' args)"
proof -
  from assms have "normalizeArguments fresh args = Object fresh (scan args [])"
    by (simp add: normalizeArguments_def)
  then show ?thesis
    by (simp add: map_of_scan_path map_of_scan_callback map_of_scan_triggerNow
        last_of_type_def split: list.splits)
qed

text \<open>C5 as amended, at two strings and two functions.\<close>

theorem last_argument_of_a_type_wins_witness:
  "get_prop (normalizeArguments 9 [String ''a'', Function 1, String ''b'', Function 2]) ''path''
     = Inr (String ''b'')
   \<and> get_prop (normalizeArguments 9 [String ''a'', Function 1, String ''b'', Function 2])
       ''callback'' = Inr (Function 2)
   \<and> get_prop (normalizeArguments 9 [String ''a'', Function 1, String ''b'', Function 2])
       ''triggerNow'' = Inr Undefined"
  using last_argument_of_a_type_wins
    [of "[String ''a'', Function 1, String ''b'', Function 2]" 9]
  by (simp add: last_of_type_def)

text \<open>
  C5 as stated fails: with two strings, two functions and two booleans the slots hold
  the second of each, not the first.
\<close>

theorem first_argument_of_a_type_wins_counterexample:
  "normalizeArguments 9
     [String ''a'', String ''b'', Function 1, Function 2, Boolean True, Boolean False]
   = Object 9 [(''path'', String ''b''), (''callback'', Function 2),
               (''triggerNow'', Boolean False)]"
  by (simp add: normalizeArguments_def)

section \<open>The facade\<close>

text \<open>
  C9. \<^verbatim>\<open>get\<close>, \<^verbatim>\<open>set\<close>, \<^verbatim>\<open>setWithAck\<close>,
  \<^verbatim>\<open>setMergeStrategy\<close> and \<^verbatim>\<open>delete\<close> leave the tracked
  subscription list as it was: the same entries in the same order.
  \<^verbatim>\<open>get\<close>, \<^verbatim>\<open>setMergeStrategy\<close> and \<^verbatim>\<open>delete\<close> always
  return; \<^verbatim>\<open>set\<close> and \<^verbatim>\<open>setWithAck\<close> may throw from the set
  normalizer, before they touch anything.
\<close>

theorem subscriptions_frame:
  "(\<exists>this'. get this p = Inr this' \<and> subscriptions this' = subscriptions this)
   \<and> (\<forall>this'. set_js this args = Inr this' \<longrightarrow> subscriptions this' = subscriptions this)
   \<and> (\<forall>this'. setWithAck this args = Inr this' \<longrightarrow> subscriptions this' = subscriptions this)
   \<and> (\<exists>this'. setMergeStrategy this m = Inr this' \<and> subscriptions this' = subscriptions this)
   \<and> (\<exists>this'. delete this cb = Inr this' \<and> subscriptions this' = subscriptions this)"
  by (auto simp: get_def set_js_def setWithAck_def setMergeStrategy_def delete_def
      split: sum.splits)

text \<open>C9 on a facade that tracks one entry, each of the five calls returning.\<close>

theorem subscriptions_frame_witness:
  "get \<lparr>subscriptions = [Object 1 [(''callback'', Function 0)]], issued = []\<rparr> (String ''a'')
     = Inr \<lparr>subscriptions = [Object 1 [(''callback'', Function 0)]],
            issued = [record_get (String ''a'')]\<rparr>
   \<and> set_js \<lparr>subscriptions = [Object 1 [(''callback'', Function 0)]], issued = []\<rparr>
         [String ''a'', Number 1]
     = Inr \<lparr>subscriptions = [Object 1 [(''callback'', Function 0)]],
            issued = [record_set \<lparr>path = String ''a'', data = Number 1, callback = Undefined\<rparr>]\<rparr>
   \<and> setWithAck \<lparr>subscriptions = [Object 1 [(''callback'', Function 0)]], issued = []\<rparr>
         [String ''a'', Number 1]
     = Inr \<lparr>subscriptions = [Object 1 [(''callback'', Function 0)]],
            issued = [record_setWithAck
                        \<lparr>path = String ''a'', data = Number 1, callback = Undefined\<rparr>]\<rparr>
   \<and> setMergeStrategy \<lparr>subscriptions = [Object 1 [(''callback'', Function 0)]], issued = []\<rparr>
         (Function 2)
     = Inr \<lparr>subscriptions = [Object 1 [(''callback'', Function 0)]],
            issued = [record_setMergeStrategy (Function 2)]\<rparr>
   \<and> delete \<lparr>subscriptions = [Object 1 [(''callback'', Function 0)]], issued = []\<rparr> Undefined
     = Inr \<lparr>subscriptions = [Object 1 [(''callback'', Function 0)]],
            issued = [record_delete Undefined]\<rparr>"
  using subscriptions_frame
    [of "\<lparr>subscriptions = [Object 1 [(''callback'', Function 0)]], issued = []\<rparr>"
        "String ''a''" "[String ''a'', Number 1]" "Function 2" Undefined]
  by (simp add: get_def set_js_def setWithAck_def setMergeStrategy_def delete_def
      normalizeSetArguments_def two_arguments_def validate_def isPath_def isRootData_def
      isNestedData_def isCallback_def strict_eq_def)

text \<open>
  C1, as the code has it. \<^verbatim>\<open>discard\<close> issues one unsubscribe to the
  underlying record for every tracked entry, in tracked order, then a discard; the
  tracked list itself is left as it was.
\<close>

theorem discard_issues_unsubscribes:
  "\<exists>this'. discard this = Inr this'
     \<and> issued this' = issued this @ map record_unsubscribe (subscriptions this) @ [record_discard]
     \<and> subscriptions this' = subscriptions this"
  by (simp add: discard_def unsubscribe_each_append)

text \<open>C1 as amended, on a facade that tracks two entries and has issued one call.\<close>

theorem discard_issues_unsubscribes_witness:
  "discard \<lparr>subscriptions = [Object 1 [(''callback'', Function 0)], Null],
            issued = [record_get Undefined]\<rparr>
   = Inr \<lparr>subscriptions = [Object 1 [(''callback'', Function 0)], Null],
          issued = [record_get Undefined,
                    record_unsubscribe (Object 1 [(''callback'', Function 0)]),
                    record_unsubscribe Null, record_discard]\<rparr>"
  using discard_issues_unsubscribes
    [of "\<lparr>subscriptions = [Object 1 [(''callback'', Function 0)], Null],
          issued = [record_get Undefined]\<rparr>"]
  by (simp add: discard_def)

text \<open>
  C1 as stated fails: after \<^verbatim>\<open>discard\<close> on a facade that tracks one
  entry, the tracked list still holds that entry.
\<close>

theorem discard_keeps_tracked_counterexample:
  "discard \<lparr>subscriptions = [Object 1 [(''path'', String ''p''), (''callback'', Function 0)]],
            issued = []\<rparr>
   = Inr \<lparr>subscriptions = [Object 1 [(''path'', String ''p''), (''callback'', Function 0)]],
          issued = [record_unsubscribe
                      (Object 1 [(''path'', String ''p''), (''callback'', Function 0)]),
                    record_discard]\<rparr>
   \<and> [Object 1 [(''path'', String ''p''), (''callback'', Function 0)]] \<noteq> []"
  by (simp add: discard_def)

text \<open>
  C4, as the code has it. When the callback of the normalized request is not a
  callable function, \<^verbatim>\<open>subscribe\<close> does not throw: it appends the request to
  the tracked list and forwards it to the underlying record, as for any other request.
\<close>

theorem subscribe_tracks_without_callback:
  assumes "\<not> callable_callback (normalizeArguments fresh args)"
  shows "subscribe fresh this args =
           Inr (this\<lparr>subscriptions := subscriptions this @ [normalizeArguments fresh args],
                     issued := issued this @ [record_subscribe (normalizeArguments fresh args)]\<rparr>)"
  by (simp add: subscribe_def Let_def)

text \<open>C4 as amended, at a call with a path and a boolean and no function.\<close>

theorem subscribe_tracks_without_callback_witness:
  "\<not> callable_callback (normalizeArguments 1 [String ''p'', Boolean True])
   \<and> subscribe 1 \<lparr>subscriptions = [], issued = []\<rparr> [String ''p'', Boolean True]
     = Inr \<lparr>subscriptions = [Object 1 [(''path'', String ''p''), (''triggerNow'', Boolean True)]],
            issued = [record_subscribe
                        (Object 1 [(''path'', String ''p''), (''triggerNow'', Boolean True)])]\<rparr>"
proof -
  have h: "\<not> callable_callback (normalizeArguments 1 [String ''p'', Boolean True])"
    by (simp add: callable_callback_def normalizeArguments_def)
  show ?thesis
    using h subscribe_tracks_without_callback
      [OF h, of "\<lparr>subscriptions = [], issued = []\<rparr>"]
    by (simp add: normalizeArguments_def)
qed

text \<open>
  C4 as stated fails: \<^verbatim>\<open>subscribe("p")\<close> resolves no callback, and yet it
  returns, tracks the request and forwards it.
\<close>

theorem subscribe_rejects_counterexample:
  "subscribe 1 \<lparr>subscriptions = [], issued = []\<rparr> [String ''p'']
     = Inr \<lparr>subscriptions = [Object 1 [(''path'', String ''p'')]],
            issued = [record_subscribe (Object 1 [(''path'', String ''p'')])]\<rparr>
   \<and> get_prop (normalizeArguments 1 [String ''p'']) ''callback'' = Inr Undefined"
  by (simp add: subscribe_def normalizeArguments_def Let_def)

text \<open>
  C3, as the code has it. When the tracked list is empty, or when neither the normalized
  request nor any tracked entry is \<^verbatim>\<open>null\<close>, \<^verbatim>\<open>unsubscribe\<close>
  removes every tracked entry whose (path, callback) pair strictly equals that of the
  normalized request, keeps the others in their order, and forwards the normalized
  request to the underlying record, also when no entry matched.
\<close>

theorem unsubscribe_removes_every_match:
  assumes "subscriptions this = []
           \<or> (normalizeArguments fresh args \<noteq> Null
               \<and> (\<forall>s \<in> set (subscriptions this). \<not> nullish s))"
  shows "unsubscribe fresh this args =
           Inr (this\<lparr>subscriptions :=
                       filter (\<lambda>s. \<not> pair_equal s (normalizeArguments fresh args))
                         (subscriptions this),
                     issued := issued this @ [record_unsubscribe (normalizeArguments fresh args)]\<rparr>)"
proof (cases "subscriptions this = []")
  case True
  then show ?thesis by (simp add: unsubscribe_def Let_def)
next
  case False
  with assms have "\<not> nullish (normalizeArguments fresh args)"
    and "\<forall>s \<in> set (subscriptions this). \<not> nullish s"
    by (simp_all add: nullish_normalizeArguments)
  then show ?thesis by (rule unsubscribe_Inr)
qed

text \<open>
  C3 as amended: two of three entries match and both are removed; no entry matches and
  the request is still forwarded; the list is empty and \<^verbatim>\<open>null\<close> is forwarded.
\<close>

theorem unsubscribe_removes_every_match_witness:
  "unsubscribe 9
     \<lparr>subscriptions =
        [Object 1 [(''path'', String ''p''), (''callback'', Function 0)],
         Object 2 [(''path'', String ''q''), (''callback'', Function 0)],
         Object 3 [(''path'', String ''p''), (''callback'', Function 0)]],
      issued = []\<rparr>
     [String ''p'', Function 0]
   = Inr \<lparr>subscriptions = [Object 2 [(''path'', String ''q''), (''callback'', Function 0)]],
          issued = [record_unsubscribe
                      (Object 9 [(''path'', String ''p''), (''callback'', Function 0)])]\<rparr>
   \<and> unsubscribe 9
     \<lparr>subscriptions = [Object 2 [(''path'', String ''q''), (''callback'', Function 0)]],
      issued = []\<rparr>
     [String ''p'', Function 0]
   = Inr \<lparr>subscriptions = [Object 2 [(''path'', String ''q''), (''callback'', Function 0)]],
          issued = [record_unsubscribe
                      (Object 9 [(''path'', String ''p''), (''callback'', Function 0)])]\<rparr>
   \<and> unsubscribe 9 \<lparr>subscriptions = [], issued = []\<rparr> [Null]
   = Inr \<lparr>subscriptions = [], issued = [record_unsubscribe Null]\<rparr>"
  using unsubscribe_removes_every_match
    [of "\<lparr>subscriptions =
            [Object 1 [(''path'', String ''p''), (''callback'', Function 0)],
             Object 2 [(''path'', String ''q''), (''callback'', Function 0)],
             Object 3 [(''path'', String ''p''), (''callback'', Function 0)]],
          issued = []\<rparr>" 9 "[String ''p'', Function 0]"]
    unsubscribe_removes_every_match
    [of "\<lparr>subscriptions = [Object 2 [(''path'', String ''q''), (''callback'', Function 0)]],
          issued = []\<rparr>" 9 "[String ''p'', Function 0]"]
    unsubscribe_removes_every_match
    [of "\<lparr>subscriptions = [], issued = []\<rparr>" 9 "[Null]"]
  by (simp add: normalizeArguments_def nullish_def pair_equal_def strict_eq_def)

text \<open>
  C3 as stated fails: \<^verbatim>\<open>unsubscribe(null)\<close> on a facade that tracks an
  entry throws a TypeError while reading \<^verbatim>\<open>parameters.path\<close>, and forwards
  nothing.
\<close>

theorem unsubscribe_forwards_counterexample:
  "unsubscribe 9
     \<lparr>subscriptions = [Object 1 [(''path'', String ''p''), (''callback'', Function 0)]],
      issued = []\<rparr>
     [Null]
   = Inl TypeError"
  by (simp add: unsubscribe_def normalizeArguments_def differs_def Let_def)

text \<open>
  C2, as the code has it. On a facade whose tracked entries are not
  \<^verbatim>\<open>null\<close>, giving the same arguments to \<^verbatim>\<open>subscribe\<close> twice adds
  two tracked entries, and one \<^verbatim>\<open>unsubscribe\<close> with those arguments then
  returns and removes both of them, along with every older entry of the same pair: what
  is left is the list from before the two subscriptions without the entries of that
  pair. The pair is one that strictly equals itself (no NaN in it).
\<close>

theorem unsubscribe_removes_both:
  assumes "\<forall>s \<in> set (subscriptions this). \<not> nullish s"
    and "pair_equal (normalizeArguments r3 args) (normalizeArguments r3 args)"
  shows "\<exists>this1 this2 this3.
           subscribe r1 this args = Inr this1
         \<and> subscribe r2 this1 args = Inr this2
         \<and> unsubscribe r3 this2 args = Inr this3
         \<and> subscriptions this2 =
             subscriptions this @ [normalizeArguments r1 args, normalizeArguments r2 args]
         \<and> subscriptions this3 =
             filter (\<lambda>s. \<not> pair_equal s (normalizeArguments r3 args)) (subscriptions this)"
proof -
  let ?p = "normalizeArguments r3 args"
  let ?p1 = "normalizeArguments r1 args"
  let ?p2 = "normalizeArguments r2 args"
  let ?this1 = "this\<lparr>subscriptions := subscriptions this @ [?p1],
                      issued := issued this @ [record_subscribe ?p1]\<rparr>"
  let ?this2 = "?this1\<lparr>subscriptions := subscriptions ?this1 @ [?p2],
                        issued := issued ?this1 @ [record_subscribe ?p2]\<rparr>"
  let ?keep = "\<lambda>s. \<not> pair_equal s ?p"
  let ?this3 = "?this2\<lparr>subscriptions := filter ?keep (subscriptions ?this2),
                        issued := issued ?this2 @ [record_unsubscribe ?p]\<rparr>"
  have s1: "subscribe r1 this args = Inr ?this1"
    by (simp add: subscribe_def Let_def)
  have s2: "subscribe r2 ?this1 args = Inr ?this2"
    by (simp add: subscribe_def Let_def)
  have l2: "subscriptions ?this2 = subscriptions this @ [?p1, ?p2]"
    by simp
  have p: "\<not> nullish ?p"
    using assms(2) by (rule pair_equal_not_nullish)
  then have "\<not> nullish ?p1" "\<not> nullish ?p2"
    using nullish_fresh [of r1 args r3] nullish_fresh [of r2 args r3] by simp_all
  with assms(1) have all: "\<forall>s \<in> set (subscriptions ?this2). \<not> nullish s"
    unfolding l2 by simp
  have s3: "unsubscribe r3 ?this2 args = Inr ?this3"
    using p all by (rule unsubscribe_Inr)
  have gone: "\<not> ?keep ?p1" "\<not> ?keep ?p2"
    using assms(2) pair_equal_fresh [of r1 args ?p r3] pair_equal_fresh [of r2 args ?p r3]
    by simp_all
  have l3: "subscriptions ?this3 = filter ?keep (subscriptions this)"
    using gone by simp
  from s1 s2 s3 l2 l3 show ?thesis by blast
qed

text \<open>
  C2 as amended, on a facade that tracks another path: both new entries are gone after
  one \<^verbatim>\<open>unsubscribe\<close>, the other entry stays.
\<close>

theorem unsubscribe_removes_both_witness:
  "\<not> nullish (Object 7 [(''path'', String ''q''), (''callback'', Function 0)])
   \<and> pair_equal (normalizeArguments 3 [String ''p'', Function 0])
        (normalizeArguments 3 [String ''p'', Function 0])
   \<and> (\<exists>this1 this2 this3.
         subscribe 1
           \<lparr>subscriptions = [Object 7 [(''path'', String ''q''), (''callback'', Function 0)]],
            issued = []\<rparr>
           [String ''p'', Function 0] = Inr this1
       \<and> subscribe 2 this1 [String ''p'', Function 0] = Inr this2
       \<and> unsubscribe 3 this2 [String ''p'', Function 0] = Inr this3
       \<and> subscriptions this2 =
           [Object 7 [(''path'', String ''q''), (''callback'', Function 0)],
            Object 1 [(''path'', String ''p''), (''callback'', Function 0)],
            Object 2 [(''path'', String ''p''), (''callback'', Function 0)]]
       \<and> subscriptions this3 =
           [Object 7 [(''path'', String ''q''), (''callback'', Function 0)]])"
proof -
  let ?s0 = "\<lparr>subscriptions = [Object 7 [(''path'', String ''q''), (''callback'', Function 0)]],
                issued = []\<rparr>"
  let ?args = "[String ''p'', Function 0]"
  have n: "\<not> nullish (Object 7 [(''path'', String ''q''), (''callback'', Function 0)])"
    by (simp add: nullish_def)
  then have h1: "\<forall>s \<in> set (subscriptions ?s0). \<not> nullish s"
    by simp
  have h2: "pair_equal (normalizeArguments 3 ?args) (normalizeArguments 3 ?args)"
    by (simp add: normalizeArguments_def pair_equal_def strict_eq_def)
  have v: "normalizeArguments 1 ?args
             = Object 1 [(''path'', String ''p''), (''callback'', Function 0)]"
    "normalizeArguments 2 ?args
             = Object 2 [(''path'', String ''p''), (''callback'', Function 0)]"
    by (simp_all add: normalizeArguments_def)
  have f: "filter (\<lambda>s. \<not> pair_equal s (normalizeArguments 3 ?args)) (subscriptions ?s0)
             = [Object 7 [(''path'', String ''q''), (''callback'', Function 0)]]"
    by (simp add: normalizeArguments_def pair_equal_def strict_eq_def)
  from unsubscribe_removes_both [OF h1 h2, of 1 2]
  have "\<exists>this1 this2 this3.
         subscribe 1 ?s0 ?args = Inr this1
       \<and> subscribe 2 this1 ?args = Inr this2
       \<and> unsubscribe 3 this2 ?args = Inr this3
       \<and> subscriptions this2 =
           [Object 7 [(''path'', String ''q''), (''callback'', Function 0)],
            Object 1 [(''path'', String ''p''), (''callback'', Function 0)],
            Object 2 [(''path'', String ''p''), (''callback'', Function 0)]]
       \<and> subscriptions this3 =
           [Object 7 [(''path'', String ''q''), (''callback'', Function 0)]]"
    unfolding v f by (simp only: facade.select_convs append.simps)
  with n h2 show ?thesis by (intro conjI)
qed

text \<open>
  C2 as stated fails: after \<^verbatim>\<open>subscribe("p", f)\<close> twice on an empty facade,
  one \<^verbatim>\<open>unsubscribe("p", f)\<close> leaves no tracked entry, so it removed two.
\<close>

theorem unsubscribe_removes_one_counterexample:
  "subscribe 1 \<lparr>subscriptions = [], issued = []\<rparr> [String ''p'', Function 0]
   = Inr \<lparr>subscriptions = [Object 1 [(''path'', String ''p''), (''callback'', Function 0)]],
          issued = [record_subscribe
                      (Object 1 [(''path'', String ''p''), (''callback'', Function 0)])]\<rparr>
   \<and> subscribe 2
     \<lparr>subscriptions = [Object 1 [(''path'', String ''p''), (''callback'', Function 0)]],
      issued = [record_subscribe
                  (Object 1 [(''path'', String ''p''), (''callback'', Function 0)])]\<rparr>
     [String ''p'', Function 0]
   = Inr \<lparr>subscriptions =
            [Object 1 [(''path'', String ''p''), (''callback'', Function 0)],
             Object 2 [(''path'', String ''p''), (''callback'', Function 0)]],
          issued = [record_subscribe
                      (Object 1 [(''path'', String ''p''), (''callback'', Function 0)]),
                    record_subscribe
                      (Object 2 [(''path'', String ''p''), (''callback'', Function 0)])]\<rparr>
   \<and> unsubscribe 3
     \<lparr>subscriptions =
        [Object 1 [(''path'', String ''p''), (''callback'', Function 0)],
         Object 2 [(''path'', String ''p''), (''callback'', Function 0)]],
      issued = [record_subscribe
                  (Object 1 [(''path'', String ''p''), (''callback'', Function 0)]),
                record_subscribe
                  (Object 2 [(''path'', String ''p''), (''callback'', Function 0)])]\<rparr>
     [String ''p'', Function 0]
   = Inr \<lparr>subscriptions = [],
          issued = [record_subscribe
                      (Object 1 [(''path'', String ''p''), (''callback'', Function 0)]),
                    record_subscribe
                      (Object 2 [(''path'', String ''p''), (''callback'', Function 0)]),
                    record_unsubscribe
                      (Object 3 [(''path'', String ''p''), (''callback'', Function 0)])]\<rparr>"
  by (simp add: subscribe_def unsubscribe_def normalizeArguments_def differs_def
      strict_eq_def Let_def)

text \<open>
  C10, as the code has it. The subscribe normalizer validates nothing and always returns
  a value of runtime type object; a single \<^verbatim>\<open>null\<close>, array or object is
  returned as it is. \<^verbatim>\<open>subscribe\<close> therefore never throws and tracks
  whatever the normalizer returned. \<^verbatim>\<open>unsubscribe\<close> validates nothing
  either, but it throws a TypeError exactly when the tracked list is not empty and the
  normalized request is \<^verbatim>\<open>null\<close> or a tracked entry is \<^verbatim>\<open>null\<close>
  (or \<^verbatim>\<open>undefined\<close>); otherwise it returns.
\<close>

theorem normalizeArguments_never_throws:
  "typeof (normalizeArguments fresh args) = ''object''
   \<and> normalizeArguments fresh [Null] = Null
   \<and> normalizeArguments fresh [Array r xs] = Array r xs
   \<and> normalizeArguments fresh [Object r ps] = Object r ps
   \<and> subscribe fresh this args =
       Inr (this\<lparr>subscriptions := subscriptions this @ [normalizeArguments fresh args],
                 issued := issued this @ [record_subscribe (normalizeArguments fresh args)]\<rparr>)
   \<and> (unsubscribe fresh this args = Inl e \<longleftrightarrow>
        e = TypeError \<and> subscriptions this \<noteq> []
        \<and> (normalizeArguments fresh args = Null
            \<or> (\<exists>s \<in> set (subscriptions this). nullish s)))"
proof (intro conjI)
  show "typeof (normalizeArguments fresh args) = ''object''"
    by (rule typeof_normalizeArguments)
  show "normalizeArguments fresh [Null] = Null"
    by (simp add: normalizeArguments_def)
  show "normalizeArguments fresh [Array r xs] = Array r xs"
    by (simp add: normalizeArguments_def)
  show "normalizeArguments fresh [Object r ps] = Object r ps"
    by (simp add: normalizeArguments_def)
  show "subscribe fresh this args =
       Inr (this\<lparr>subscriptions := subscriptions this @ [normalizeArguments fresh args],
                 issued := issued this @ [record_subscribe (normalizeArguments fresh args)]\<rparr>)"
    by (simp add: subscribe_def Let_def)
  show "unsubscribe fresh this args = Inl e \<longleftrightarrow>
        e = TypeError \<and> subscriptions this \<noteq> []
        \<and> (normalizeArguments fresh args = Null
            \<or> (\<exists>s \<in> set (subscriptions this). nullish s))"
    by (simp only: unsubscribe_Inl nullish_normalizeArguments)
qed

text \<open>
  C10 as amended: an array is returned as it is and tracked by \<^verbatim>\<open>subscribe\<close>;
  \<^verbatim>\<open>unsubscribe(null)\<close> on a facade that tracks it throws a TypeError.
\<close>

theorem normalizeArguments_never_throws_witness:
  "normalizeArguments 4 [Array 2 [Number 1]] = Array 2 [Number 1]
   \<and> subscribe 4 \<lparr>subscriptions = [], issued = []\<rparr> [Array 2 [Number 1]]
     = Inr \<lparr>subscriptions = [Array 2 [Number 1]],
            issued = [record_subscribe (Array 2 [Number 1])]\<rparr>
   \<and> unsubscribe 4 \<lparr>subscriptions = [Array 2 [Number 1]], issued = []\<rparr> [Null]
     = Inl TypeError"
  using normalizeArguments_never_throws
    [of 4 "[Array 2 [Number 1]]" 2 "[Number 1]" "[]"
        "\<lparr>subscriptions = [], issued = []\<rparr>" TypeError]
    normalizeArguments_never_throws
    [of 4 "[Null]" 2 "[Number 1]" "[]"
        "\<lparr>subscriptions = [Array 2 [Number 1]], issued = []\<rparr>" TypeError]
  by simp

text \<open>
  C10 as stated fails: after \<^verbatim>\<open>subscribe(null)\<close> the facade tracks
  \<^verbatim>\<open>null\<close>, and the next \<^verbatim>\<open>unsubscribe("p", f)\<close> throws a
  TypeError while reading \<^verbatim>\<open>subscription.path\<close>.
\<close>

theorem unsubscribe_never_throws_counterexample:
  "subscribe 1 \<lparr>subscriptions = [], issued = []\<rparr> [Null]
   = Inr \<lparr>subscriptions = [Null], issued = [record_subscribe Null]\<rparr>
   \<and> unsubscribe 2 \<lparr>subscriptions = [Null], issued = [record_subscribe Null]\<rparr>
       [String ''p'', Function 0]
   = Inl TypeError"
  by (simp add: subscribe_def unsubscribe_def normalizeArguments_def differs_def Let_def)

end
